theory Spec2Isabelle
  imports Complex_Main "HOL-Library.Sublist"
begin

section \<open>Values of the Python runtime\<close>

text \<open>
  A Python \<open>str\<close> is modelled as a \<open>string\<close> whose characters are code points below
  256, one \<open>char\<close> per code point. Exceptions are values: the ones the interpreter
  itself raises in the modelled code are constructors of their own, and an exception
  raised inside an external client (embedding model, Qdrant, Neo4j, Mistral) is
  \<open>Upstream cls msg\<close> with its class name and message.
\<close>

datatype pyexc =
    KeyError string
  | TypeError
  | AttributeError
  | IndexError
  | ValueError
  | RecursionError
  | Upstream string string

fun exc_class :: "pyexc \<Rightarrow> string" where
  "exc_class (KeyError k) = ''KeyError''"
| "exc_class TypeError = ''TypeError''"
| "exc_class AttributeError = ''AttributeError''"
| "exc_class IndexError = ''IndexError''"
| "exc_class ValueError = ''ValueError''"
| "exc_class RecursionError = ''RecursionError''"
| "exc_class (Upstream cls msg) = cls"

datatype pyval =
    PyNone
  | PyStr string
  | PyInt int
  | PyDict "(string \<times> pyval) list"

definition nl :: string where
  "nl = [CHR 0x0A]"

text \<open>\<open>str.isspace\<close> on one code point below 256.\<close>

definition py_isspace :: "char \<Rightarrow> bool" where
  "py_isspace c =
     (let n = (of_char c :: nat)
      in (9 \<le> n \<and> n \<le> 13) \<or> (28 \<le> n \<and> n \<le> 32) \<or> n = 133 \<or> n = 160)"

text \<open>\<open>s.strip()\<close>: leading and trailing whitespace removed.\<close>

definition py_strip :: "string \<Rightarrow> string" where
  "py_strip s = rev (dropWhile py_isspace (rev (dropWhile py_isspace s)))"

text \<open>
  \<open>sep.join(items)\<close>: a \<open>TypeError\<close> at the first item that is not a \<open>str\<close>.
\<close>

fun py_join :: "string \<Rightarrow> pyval list \<Rightarrow> pyexc + string" where
  "py_join sep [] = Inr []"
| "py_join sep (x # xs) =
     (case x of
        PyStr s \<Rightarrow>
          (case py_join sep xs of
             Inl e \<Rightarrow> Inl e
           | Inr r \<Rightarrow> Inr (if xs = [] then s else s @ sep @ r))
      | _ \<Rightarrow> Inl TypeError)"

section \<open>The external stores and services\<close>

type_synonym vector = "real list"

text \<open>
  A point as \<open>qdrant_client.search\<close> returns it. The payload is a dictionary, or
  \<open>None\<close>. \<open>ingest_to_qdrant_and_neo4j\<close> stores the payload
  \<open>{"text": ..., "metadata": ...}\<close>.
\<close>

record scored_point =
  point_id :: string
  score :: real
  payload :: "(string \<times> pyval) list option"

text \<open>
  A \<open>Chunk\<close> node as \<open>create_chunk_and_concept_nodes\<close> creates it:
  \<open>CREATE (c:Chunk {embeddingsId: ..., text: ..., metadata: ...})\<close>.
\<close>

record chunk =
  embeddingsId :: string
  chunk_text :: string
  metadata :: string

record message =
  role :: string
  content :: string

text \<open>
  The chat response: \<open>choices\<close> holds, for each choice, its \<open>message.content\<close>.
\<close>

record chat_response =
  choices :: "pyval list"

text \<open>The calls made to the external clients, in order.\<close>

datatype call =
    EmbedQuery string
  | QdrantSearch string vector nat
  | Neo4jRun string
  | ChatComplete string "message list" real int

text \<open>
  The world a query runs in. \<open>embed_query\<close> is the embedding model, a function of the
  text. \<open>qdrant\<close> is the state of the vector store: for a collection and a query
  vector, the failure of the search or all points of the collection, nearest first.
  \<open>neo4j\<close> is the state of the graph store: the failure of the session or its
  \<open>Chunk\<close> nodes in the order the store scans them. \<open>chat_complete\<close> is the
  chat-completion backend. \<open>calls\<close> is the log of calls made so far.
\<close>

record world =
  embed_query :: "string \<Rightarrow> pyexc + vector"
  qdrant :: "string \<Rightarrow> vector \<Rightarrow> pyexc + scored_point list"
  neo4j :: "pyexc + chunk list"
  chat_complete :: "string \<Rightarrow> message list \<Rightarrow> real \<Rightarrow> int \<Rightarrow> pyexc + chat_response"
  calls :: "call list"

definition log_call :: "call \<Rightarrow> world \<Rightarrow> world" where
  "log_call c w = w\<lparr>calls := calls w @ [c]\<rparr>"

text \<open>
  \<open>qdrant_client.search(collection_name, query_vector, limit)\<close>: the \<open>limit\<close> nearest
  points of the collection, nearest first.
\<close>

definition qdrant_search :: "world \<Rightarrow> string \<Rightarrow> vector \<Rightarrow> nat \<Rightarrow> pyexc + scored_point list" where
  "qdrant_search w coll v limit =
     (case qdrant w coll v of
        Inl e \<Rightarrow> Inl e
      | Inr ranked \<Rightarrow> Inr (take limit ranked))"

text \<open>Cypher's \<open>toLower\<close>, on code points below 256.\<close>

definition toLower_char :: "char \<Rightarrow> char" where
  "toLower_char c =
     (let n = (of_char c :: nat)
      in if (65 \<le> n \<and> n \<le> 90) \<or> (192 \<le> n \<and> n \<le> 222 \<and> n \<noteq> 215)
         then char_of (n + 32) else c)"

definition toLower :: "string \<Rightarrow> string" where
  "toLower s = map toLower_char s"

text \<open>Cypher's \<open>s CONTAINS sub\<close>: \<open>sub\<close> occurs in \<open>s\<close> as a contiguous substring.\<close>

fun cypher_contains :: "string \<Rightarrow> string \<Rightarrow> bool" where
  "cypher_contains [] sub = (sub = [])"
| "cypher_contains (c # cs) sub = (prefix sub (c # cs) \<or> cypher_contains cs sub)"

text \<open>
  The query of \<open>retrieve\<close> and the loop that reads its records:
  \<^verbatim>\<open>MATCH (c:Chunk) WHERE toLower(c.text) CONTAINS toLower($query)
  RETURN c.text AS text LIMIT 5\<close>
\<close>

definition neo4j_run :: "world \<Rightarrow> string \<Rightarrow> pyexc + string list" where
  "neo4j_run w query =
     (case neo4j w of
        Inl e \<Rightarrow> Inl e
      | Inr chunks \<Rightarrow>
          Inr (map chunk_text
                (take 5 (filter (\<lambda>c. cypher_contains (toLower (chunk_text c)) (toLower query))
                           chunks))))"

section \<open>config.py and retrieval.py\<close>

definition collection_name :: string where
  "collection_name = ''machine-learning''"

text \<open>
  The loop \<open>for result in qdrant_results: relevant_texts.append(result.payload["text"])\<close>.
  Subscripting a payload that is \<open>None\<close> is a \<open>TypeError\<close>, a payload without the key
  is a \<open>KeyError\<close>.
\<close>

fun relevant_texts :: "scored_point list \<Rightarrow> pyexc + pyval list" where
  "relevant_texts [] = Inr []"
| "relevant_texts (r # rs) =
     (case payload r of
        None \<Rightarrow> Inl TypeError
      | Some d \<Rightarrow>
          (case map_of d ''text'' of
             None \<Rightarrow> Inl (KeyError ''text'')
           | Some t \<Rightarrow>
               (case relevant_texts rs of
                  Inl e \<Rightarrow> Inl e
                | Inr ts \<Rightarrow> Inr (t # ts))))"

text \<open>
  \<open>retrieve(query)\<close> of retrieval.py. It has no \<open>try\<close>: an exception of any step ends
  it. The result is the pair \<open>(all_relevant_texts, cypher_texts)\<close>, a \<open>str\<close> and a
  list of \<open>str\<close>.
\<close>

definition retrieve :: "world \<Rightarrow> string \<Rightarrow> world \<times> (pyexc + string \<times> string list)" where
  "retrieve w query =
     (let w1 = log_call (EmbedQuery query) w in
      case embed_query w query of
        Inl e \<Rightarrow> (w1, Inl e)
      | Inr query_embedding \<Rightarrow>
          (let w2 = log_call (QdrantSearch collection_name query_embedding 5) w1 in
           case qdrant_search w collection_name query_embedding 5 of
             Inl e \<Rightarrow> (w2, Inl e)
           | Inr qdrant_results \<Rightarrow>
               (case relevant_texts qdrant_results of
                  Inl e \<Rightarrow> (w2, Inl e)
                | Inr texts \<Rightarrow>
                    (case py_join nl texts of
                       Inl e \<Rightarrow> (w2, Inl e)
                     | Inr all_relevant_texts \<Rightarrow>
                         (let w3 = log_call (Neo4jRun query) w2 in
                          case neo4j_run w query of
                            Inl e \<Rightarrow> (w3, Inl e)
                          | Inr cypher_texts \<Rightarrow>
                              (w3, Inr (all_relevant_texts, cypher_texts)))))))"

definition system_prompt :: string where
  "system_prompt =
     ''You are a helpful assistant that answers questions regarding a data science textbook.''"

definition user_prompt :: "string \<Rightarrow> string \<Rightarrow> string \<Rightarrow> string" where
  "user_prompt query milvus_context neo4j_context =
     ''Based on the following contexts extracted from similar questions and graph data:'' @ nl @
     ''---'' @ nl @
     ''Vector DB context:'' @ nl @
     milvus_context @ nl @
     ''---'' @ nl @
     ''Neo4j context:'' @ nl @
     neo4j_context @ nl @
     ''---'' @ nl @
     ''Question:'' @ nl @
     query @ nl @
     nl @
     ''Provide a concise, helpful answer.''"

text \<open>
  \<open>generate_answer_with_mistral(query, milvus_context, neo4j_context, model, temperature,
  max_tokens)\<close>. The three keyword parameters are optional, \<open>None\<close> standing for an
  argument the caller leaves out. The contexts are \<open>str\<close>, as its docstring has them.
  \<open>response.choices[0]\<close> is an \<open>IndexError\<close> when there is no choice, and \<open>.strip()\<close>
  an \<open>AttributeError\<close> when the content is not a \<open>str\<close>.
\<close>

definition generate_answer_with_mistral ::
  "world \<Rightarrow> string \<Rightarrow> string \<Rightarrow> string \<Rightarrow> string option \<Rightarrow> real option \<Rightarrow> int option
     \<Rightarrow> world \<times> (pyexc + string)" where
  "generate_answer_with_mistral w query milvus_context neo4j_context model temperature max_tokens =
     (let model' = (case model of None \<Rightarrow> ''mistral-small-latest'' | Some m \<Rightarrow> m);
          temperature' = (case temperature of None \<Rightarrow> 0.3 | Some t \<Rightarrow> t);
          max_tokens' = (case max_tokens of None \<Rightarrow> 300 | Some n \<Rightarrow> n);
          messages =
            [\<lparr>role = ''system'', content = system_prompt\<rparr>,
             \<lparr>role = ''user'', content = user_prompt query milvus_context neo4j_context\<rparr>];
          w1 = log_call (ChatComplete model' messages temperature' max_tokens') w
      in case chat_complete w model' messages temperature' max_tokens' of
           Inl e \<Rightarrow> (w1, Inl e)
         | Inr response \<Rightarrow>
             (case choices response of
                [] \<Rightarrow> (w1, Inl IndexError)
              | c # _ \<Rightarrow>
                  (case c of
                     PyStr s \<Rightarrow> (w1, Inr (py_strip s))
                   | _ \<Rightarrow> (w1, Inl AttributeError))))"

section \<open>scripts.py\<close>

text \<open>
  scripts.py imports \<open>retrieve\<close> from retrieval.py and then defines a coroutine of the
  same name, so the name \<open>retrieve\<close> in its body is the wrapper itself:
  \<^verbatim>\<open>
  async def retrieve(query):
      milvus_context, neo4j_context = await retrieve(query)
      answer = await generate_answer_with_mistral(query, milvus_context, neo4j_context)
      return answer
  \<close>
  The first argument is the number of nested calls the interpreter still allows
  (\<open>sys.getrecursionlimit()\<close>, 1000 by default): with none left the call raises
  \<open>RecursionError\<close>. Unpacking the awaited value, a \<open>str\<close>, into two names gives its
  two characters and is a \<open>ValueError\<close> for any other length.
\<close>

fun scripts_retrieve :: "nat \<Rightarrow> world \<Rightarrow> string \<Rightarrow> world \<times> (pyexc + string)" where
  "scripts_retrieve 0 w query = (w, Inl RecursionError)"
| "scripts_retrieve (Suc depth) w query =
     (case scripts_retrieve depth w query of
        (w', Inl e) \<Rightarrow> (w', Inl e)
      | (w', Inr r) \<Rightarrow>
          (case r of
             [milvus_context, neo4j_context] \<Rightarrow>
               generate_answer_with_mistral w' query [milvus_context] [neo4j_context]
                 None None None
           | _ \<Rightarrow> (w', Inl ValueError)))"

section \<open>The words of the specification\<close>

text \<open>
  "Concatenate the chunk texts with newline separators": every text in its place, a
  newline between two neighbours, none at the end.
\<close>

fun newline_separated :: "string list \<Rightarrow> string" where
  "newline_separated [] = []"
| "newline_separated [t] = t"
| "newline_separated (t # ts) = t @ nl @ newline_separated ts"

text \<open>"The payload text" of a point: the value under the key \<open>text\<close> of its payload.\<close>

definition payload_text :: "scored_point \<Rightarrow> pyval option" where
  "payload_text p = (case payload p of None \<Rightarrow> None | Some d \<Rightarrow> map_of d ''text'')"

section \<open>Example worlds\<close>

definition mk_point :: "string \<Rightarrow> real \<Rightarrow> string \<Rightarrow> int \<Rightarrow> scored_point" where
  "mk_point i s t n =
     \<lparr>point_id = i, score = s,
      payload = Some [(''text'', PyStr t),
                      (''metadata'', PyDict [(''page'', PyStr ''combined''), (''chunk'', PyInt n),
                                             (''source'', PyStr ''ML-DS-TEXTBOOKS/book.pdf'')])]\<rparr>"

text \<open>Six stored points, nearest first; the first two carry the same text.\<close>

definition ex_points :: "scored_point list" where
  "ex_points =
     [mk_point ''p1'' 0.9 ''Linear regression fits a line.'' 0,
      mk_point ''p2'' 0.8 ''Linear regression fits a line.'' 1,
      mk_point ''p3'' 0.7 ''Ridge Regression adds a penalty.'' 2,
      mk_point ''p4'' 0.6 ''Residuals measure error.'' 3,
      mk_point ''p5'' 0.5 ''Clustering groups points.'' 4,
      mk_point ''p6'' 0.4 ''Trees split on features.'' 5]"

definition mk_chunk :: "string \<Rightarrow> string \<Rightarrow> chunk" where
  "mk_chunk i t = \<lparr>embeddingsId = i, chunk_text = t, metadata = ''{}''\<rparr>"

text \<open>Seven \<open>Chunk\<close> nodes; two of them mention regression, one with a capital.\<close>

definition ex_chunks :: "chunk list" where
  "ex_chunks =
     [mk_chunk ''c1'' ''Clustering groups points.'',
      mk_chunk ''c2'' ''Ridge Regression adds a penalty.'',
      mk_chunk ''c3'' ''Trees split on features.'',
      mk_chunk ''c4'' ''Linear regression fits a line.'',
      mk_chunk ''c5'' ''Residuals measure error.'',
      mk_chunk ''c6'' ''Boosting combines learners.'',
      mk_chunk ''c7'' ''Bagging averages models.'']"

text \<open>Every service answers.\<close>

definition w_ok :: world where
  "w_ok =
     \<lparr>embed_query = (\<lambda>t. Inr [0.1, 0.2]),
      qdrant = (\<lambda>c v. Inr ex_points),
      neo4j = Inr ex_chunks,
      chat_complete = (\<lambda>m ms t n. Inr \<lparr>choices = [PyStr ''  Regression fits a model. '']\<rparr>),
      calls = []\<rparr>"

text \<open>The embedding model raises.\<close>

definition w_embed_down :: world where
  "w_embed_down =
     w_ok\<lparr>embed_query := (\<lambda>t. Inl (Upstream ''RuntimeError'' ''embedding model unavailable''))\<rparr>"

text \<open>The vector store cannot be reached.\<close>

definition w_vector_down :: world where
  "w_vector_down =
     w_ok\<lparr>qdrant := (\<lambda>c v. Inl (Upstream ''ResponseHandlingException'' ''connection refused''))\<rparr>"

text \<open>The graph store cannot be reached.\<close>

definition w_graph_down :: world where
  "w_graph_down = w_ok\<lparr>neo4j := Inl (Upstream ''ServiceUnavailable'' ''connection refused'')\<rparr>"

text \<open>The collection is empty.\<close>

definition w_vector_empty :: world where
  "w_vector_empty = w_ok\<lparr>qdrant := (\<lambda>c v. Inr [])\<rparr>"

text \<open>The chat-completion backend answers with a quota error.\<close>

definition w_quota :: world where
  "w_quota =
     w_ok\<lparr>chat_complete := (\<lambda>m ms t n. Inl (Upstream ''SDKError'' ''429 quota exceeded''))\<rparr>"

section \<open>Auxiliary facts\<close>

text \<open>The equations that evaluate the model on the example worlds.\<close>

lemmas ex_defs = w_ok_def w_embed_down_def w_vector_down_def w_graph_down_def w_vector_empty_def
  w_quota_def ex_points_def mk_point_def ex_chunks_def mk_chunk_def

lemma cypher_contains_iff: "cypher_contains s sub \<longleftrightarrow> (\<exists>pre suf. s = pre @ sub @ suf)"
proof (induction s)
  case Nil
  then show ?case by auto
next
  case (Cons c cs)
  show ?case
  proof
    assume "cypher_contains (c # cs) sub"
    then consider "prefix sub (c # cs)" | "cypher_contains cs sub" by auto
    then show "\<exists>pre suf. c # cs = pre @ sub @ suf"
    proof cases
      case 1
      then obtain suf where "c # cs = sub @ suf" by (auto simp: prefix_def)
      then have "c # cs = [] @ sub @ suf" by simp
      then show ?thesis by blast
    next
      case 2
      with Cons.IH obtain pre suf where "cs = pre @ sub @ suf" by blast
      then have "c # cs = (c # pre) @ sub @ suf" by simp
      then show ?thesis by blast
    qed
  next
    assume "\<exists>pre suf. c # cs = pre @ sub @ suf"
    then obtain pre suf where eq: "c # cs = pre @ sub @ suf" by blast
    show "cypher_contains (c # cs) sub"
    proof (cases pre)
      case Nil
      with eq have "prefix sub (c # cs)" by (simp add: prefix_def)
      then show ?thesis by simp
    next
      case (Cons p ps)
      with eq have "cs = ps @ sub @ suf" by simp
      with Cons.IH have "cypher_contains cs sub" by blast
      then show ?thesis by simp
    qed
  qed
qed

lemma cypher_contains_empty: "cypher_contains s []"
  by (cases s) auto

lemma relevant_texts_payload_text:
  "map payload_text rs = map (\<lambda>t. Some (PyStr t)) ts \<Longrightarrow> relevant_texts rs = Inr (map PyStr ts)"
proof (induction rs arbitrary: ts)
  case Nil
  then show ?case by simp
next
  case (Cons r rs)
  then obtain t ts' where ts: "ts = t # ts'" by (cases ts) auto
  with Cons.prems have hd: "payload_text r = Some (PyStr t)"
    and tl: "map payload_text rs = map (\<lambda>t. Some (PyStr t)) ts'" by auto
  from hd obtain d where "payload r = Some d" "map_of d ''text'' = Some (PyStr t)"
    by (auto simp: payload_text_def split: option.splits)
  with Cons.IH [OF tl] ts show ?case by simp
qed

lemma py_join_strs: "py_join nl (map PyStr ts) = Inr (newline_separated ts)"
  by (induction ts rule: newline_separated.induct) auto

lemma retrieve_world: "fst (retrieve w q) = w\<lparr>calls := calls (fst (retrieve w q))\<rparr>"
  by (auto simp: retrieve_def log_call_def Let_def split: sum.splits)

lemma retrieve_snd_calls: "snd (retrieve (w\<lparr>calls := cs\<rparr>) q) = snd (retrieve w q)"
  by (auto simp: retrieve_def log_call_def Let_def qdrant_search_def neo4j_run_def split: sum.splits)

lemma retrieve_ok:
  assumes "embed_query w q = Inr v"
    and "qdrant w collection_name v = Inr ranked"
    and "map payload_text (take 5 ranked) = map (\<lambda>t. Some (PyStr t)) ts"
  shows "retrieve w q =
    (case neo4j_run w q of
       Inl e \<Rightarrow> (w\<lparr>calls := calls w @ [EmbedQuery q, QdrantSearch collection_name v 5, Neo4jRun q]\<rparr>, Inl e)
     | Inr g \<Rightarrow> (w\<lparr>calls := calls w @ [EmbedQuery q, QdrantSearch collection_name v 5, Neo4jRun q]\<rparr>,
                 Inr (newline_separated ts, g)))"
  using assms relevant_texts_payload_text [OF assms(3)]
  by (simp add: retrieve_def log_call_def qdrant_search_def py_join_strs split: sum.splits)

lemma retrieve_Inr_graph: "snd (retrieve w q) = Inr (vc, g) \<Longrightarrow> neo4j_run w q = Inr g"
  by (auto simp: retrieve_def Let_def split: sum.splits)

lemma neo4j_run_Inr:
  "neo4j w = Inr chunks \<Longrightarrow>
   neo4j_run w q = Inr (map chunk_text (take 5 (filter (\<lambda>c. cypher_contains (toLower (chunk_text c)) (toLower q)) chunks)))"
  by (simp add: neo4j_run_def)

lemma neo4j_run_cong: "neo4j w' = neo4j w \<Longrightarrow> neo4j_run w' q = neo4j_run w q"
  by (simp add: neo4j_run_def)

lemma payload_texts_length:
  "map payload_text (take 5 ranked) = map (\<lambda>t. Some (PyStr t)) ts \<Longrightarrow> length ts \<le> 5"
proof -
  assume "map payload_text (take 5 ranked) = map (\<lambda>t. Some (PyStr t)) ts"
  then have "length (map payload_text (take 5 ranked)) = length (map (\<lambda>t. Some (PyStr t)) ts)"
    by simp
  then show ?thesis by simp
qed

lemma ex_payload_texts:
  "map payload_text (take 5 ex_points) =
     map (\<lambda>t. Some (PyStr t))
       [''Linear regression fits a line.'', ''Linear regression fits a line.'',
        ''Ridge Regression adds a penalty.'', ''Residuals measure error.'',
        ''Clustering groups points.'']"
  by (simp add: ex_points_def mk_point_def payload_text_def)

lemma ex_embed: "embed_query w_ok q = Inr [0.1, 0.2]"
  by (simp add: w_ok_def)

lemma ex_qdrant: "qdrant w_ok collection_name [0.1, 0.2] = Inr ex_points"
  by (simp add: w_ok_def)

lemma ex_neo4j: "neo4j w_ok = Inr ex_chunks"
  by (simp add: w_ok_def)

lemma ex_calls: "calls w_ok = []"
  by (simp add: w_ok_def)

lemma ex_neo4j_run_regression:
  "neo4j_run w_ok ''regression'' =
     Inr [''Ridge Regression adds a penalty.'', ''Linear regression fits a line.'']"
  by code_simp

lemma ex_retrieve_regression:
  "snd (retrieve w_ok ''regression'') =
     Inr (''Linear regression fits a line.'' @ nl @ ''Linear regression fits a line.'' @ nl @
          ''Ridge Regression adds a penalty.'' @ nl @ ''Residuals measure error.'' @ nl @
          ''Clustering groups points.'',
          [''Ridge Regression adds a penalty.'', ''Linear regression fits a line.''])"
  by (simp add: retrieve_ok [OF ex_embed ex_qdrant ex_payload_texts] ex_neo4j_run_regression)

lemma py_strip_decomp:
  "\<exists>l r. s = l @ py_strip s @ r \<and> (\<forall>c \<in> set l. py_isspace c) \<and> (\<forall>c \<in> set r. py_isspace c)"
proof -
  let ?d = "dropWhile py_isspace s"
  let ?l = "takeWhile py_isspace s"
  let ?r = "rev (takeWhile py_isspace (rev ?d))"
  have "rev (takeWhile py_isspace (rev ?d) @ dropWhile py_isspace (rev ?d)) = ?d"
    by simp
  then have d: "py_strip s @ ?r = ?d"
    unfolding py_strip_def rev_append .
  have "s = ?l @ ?d" by simp
  with d have "s = ?l @ py_strip s @ ?r" by simp
  moreover have "\<forall>c \<in> set ?l. py_isspace c" by (auto dest: set_takeWhileD)
  moreover have "\<forall>c \<in> set ?r. py_isspace c" by (auto dest: set_takeWhileD)
  ultimately show ?thesis by blast
qed

lemma py_strip_ends:
  assumes "py_strip s \<noteq> []"
  shows "\<not> py_isspace (hd (py_strip s)) \<and> \<not> py_isspace (last (py_strip s))"
proof -
  let ?d = "dropWhile py_isspace s"
  let ?e = "dropWhile py_isspace (rev ?d)"
  from assms have e: "?e \<noteq> []" by (simp add: py_strip_def)
  have d: "?d \<noteq> []"
  proof
    assume a: "?d = []"
    have "?e = []" unfolding a by simp
    with e show False by blast
  qed
  have "last (py_strip s) = hd ?e" using e by (simp add: py_strip_def last_rev)
  moreover have "\<not> py_isspace (hd ?e)" using e by (rule hd_dropWhile)
  moreover have "last (takeWhile py_isspace (rev ?d) @ ?e) = last ?e"
    using e by (rule last_appendR)
  then have "last ?e = last (rev ?d)" by simp
  then have "hd (py_strip s) = hd ?d" using d by (simp add: py_strip_def hd_rev last_rev)
  moreover have "\<not> py_isspace (hd ?d)" using d by (rule hd_dropWhile)
  ultimately show ?thesis by simp
qed

lemma user_prompt_blocks:
  "\<exists>pre mid1 mid2.
     user_prompt q mc nc =
       pre @ ''Vector DB context:'' @ nl @ mc @ mid1 @ ''Neo4j context:'' @ nl @ nc @ mid2 @
       ''Question:'' @ nl @ q @ nl @ nl @ ''Provide a concise, helpful answer.''"
proof -
  have "user_prompt q mc nc =
       (''Based on the following contexts extracted from similar questions and graph data:'' @ nl @
        ''---'' @ nl) @ ''Vector DB context:'' @ nl @ mc @ (nl @ ''---'' @ nl) @
        ''Neo4j context:'' @ nl @ nc @ (nl @ ''---'' @ nl) @
       ''Question:'' @ nl @ q @ nl @ nl @ ''Provide a concise, helpful answer.''"
    by (simp add: user_prompt_def)
  then show ?thesis by blast
qed

lemma ex_filter_regression:
  "map chunk_text
     (take 5 (filter (\<lambda>c. cypher_contains (toLower (chunk_text c)) (toLower ''regression''))
                ex_chunks)) =
   [''Ridge Regression adds a penalty.'', ''Linear regression fits a line.'']"
  by code_simp

lemma ex_filter_xyzzy:
  "filter (\<lambda>c. cypher_contains (toLower (chunk_text c)) (toLower ''xyzzy'')) ex_chunks = []"
  by code_simp

lemma ex_no_xyzzy:
  "\<forall>c \<in> set ex_chunks. \<not> (\<exists>pre suf. toLower (chunk_text c) = pre @ toLower ''xyzzy'' @ suf)"
proof -
  have "\<forall>c \<in> set ex_chunks. \<not> cypher_contains (toLower (chunk_text c)) (toLower ''xyzzy'')"
    using ex_filter_xyzzy by (simp only: filter_empty_conv)
  then show ?thesis by (simp only: cypher_contains_iff)
qed

section \<open>The claims\<close>

subsection \<open>C1: a failing store\<close>

text \<open>
  C1 as stated, at a world whose vector store cannot be reached and at a world whose
  graph store cannot be reached: in both \<open>retrieve\<close> raises the store's exception and
  returns no context at all.
\<close>

theorem retrieve_store_failure_counterexample:
  "snd (retrieve w_vector_down ''regression'')
     = Inl (Upstream ''ResponseHandlingException'' ''connection refused'')
   \<and> snd (retrieve w_graph_down ''regression'')
     = Inl (Upstream ''ServiceUnavailable'' ''connection refused'')"
  by (simp add: retrieve_def log_call_def qdrant_search_def neo4j_run_def collection_name_def
        nl_def ex_defs)

text \<open>
  C1 as amended, for a query whose embedding succeeds. A vector search that raises ends
  \<open>retrieve\<close> with that exception, before the graph store is queried. An empty
  collection gives an empty vector context and leaves the graph context as the graph
  query gives it. A graph query that raises ends \<open>retrieve\<close> with that exception. A
  graph query that matches no chunk gives an empty graph context and leaves the vector
  context as the search gives it.
\<close>

theorem retrieve_store_outcomes:
  assumes "embed_query w q = Inr v"
  shows "(\<forall>e. qdrant w collection_name v = Inl e \<longrightarrow>
            retrieve w q =
              (w\<lparr>calls := calls w @ [EmbedQuery q, QdrantSearch collection_name v 5]\<rparr>, Inl e))
       \<and> (qdrant w collection_name v = Inr [] \<longrightarrow>
            snd (retrieve w q) =
              (case neo4j_run w q of Inl e \<Rightarrow> Inl e | Inr g \<Rightarrow> Inr ([], g)))
       \<and> (\<forall>ranked ts.
            qdrant w collection_name v = Inr ranked
            \<and> map payload_text (take 5 ranked) = map (\<lambda>t. Some (PyStr t)) ts \<longrightarrow>
              (\<forall>e. neo4j w = Inl e \<longrightarrow> snd (retrieve w q) = Inl e)
            \<and> (\<forall>chunks.
                  neo4j w = Inr chunks
                  \<and> (\<forall>c \<in> set chunks.
                        \<not> (\<exists>pre suf. toLower (chunk_text c) = pre @ toLower q @ suf)) \<longrightarrow>
                    snd (retrieve w q) = Inr (newline_separated ts, [])))"
proof (intro conjI allI impI)
  fix e assume "qdrant w collection_name v = Inl e"
  with assms show "retrieve w q =
      (w\<lparr>calls := calls w @ [EmbedQuery q, QdrantSearch collection_name v 5]\<rparr>, Inl e)"
    by (simp add: retrieve_def log_call_def qdrant_search_def)
next
  assume s: "qdrant w collection_name v = Inr []"
  have t: "map payload_text (take 5 []) = map (\<lambda>t. Some (PyStr t)) []" by simp
  show "snd (retrieve w q) =
          (case neo4j_run w q of Inl e \<Rightarrow> Inl e | Inr g \<Rightarrow> Inr ([], g))"
    by (simp add: retrieve_ok [OF assms s t] split: sum.splits)
next
  fix ranked ts e
  assume h: "qdrant w collection_name v = Inr ranked
             \<and> map payload_text (take 5 ranked) = map (\<lambda>t. Some (PyStr t)) ts"
    and g: "neo4j w = Inl e"
  from g have "neo4j_run w q = Inl e" by (simp add: neo4j_run_def)
  then show "snd (retrieve w q) = Inl e"
    by (simp add: retrieve_ok [OF assms conjunct1 [OF h] conjunct2 [OF h]])
next
  fix ranked ts chunks
  assume h: "qdrant w collection_name v = Inr ranked
             \<and> map payload_text (take 5 ranked) = map (\<lambda>t. Some (PyStr t)) ts"
    and g: "neo4j w = Inr chunks
            \<and> (\<forall>c \<in> set chunks.
                  \<not> (\<exists>pre suf. toLower (chunk_text c) = pre @ toLower q @ suf))"
  from g have "filter (\<lambda>c. cypher_contains (toLower (chunk_text c)) (toLower q)) chunks = []"
    by (simp add: filter_empty_conv cypher_contains_iff)
  with g have "neo4j_run w q = Inr []" by (simp add: neo4j_run_def)
  then show "snd (retrieve w q) = Inr (newline_separated ts, [])"
    by (simp add: retrieve_ok [OF assms conjunct1 [OF h] conjunct2 [OF h]])
qed

theorem retrieve_store_outcomes_witness:
  "retrieve w_vector_down ''regression'' =
     (w_vector_down\<lparr>calls :=
        [EmbedQuery ''regression'', QdrantSearch collection_name [0.1, 0.2] 5]\<rparr>,
      Inl (Upstream ''ResponseHandlingException'' ''connection refused''))
   \<and> snd (retrieve w_vector_empty ''regression'') =
       Inr ([], [''Ridge Regression adds a penalty.'', ''Linear regression fits a line.''])
   \<and> snd (retrieve w_graph_down ''regression'') =
       Inl (Upstream ''ServiceUnavailable'' ''connection refused'')
   \<and> snd (retrieve w_ok ''xyzzy'') =
       Inr (''Linear regression fits a line.'' @ nl @ ''Linear regression fits a line.'' @ nl @
            ''Ridge Regression adds a penalty.'' @ nl @ ''Residuals measure error.'' @ nl @
            ''Clustering groups points.'', [])"
proof -
  have e1: "embed_query w_vector_down ''regression'' = Inr [0.1, 0.2]"
    by (simp add: ex_defs)
  have s1: "qdrant w_vector_down collection_name [0.1, 0.2] =
              Inl (Upstream ''ResponseHandlingException'' ''connection refused'')"
    by (simp add: ex_defs)
  have k1: "calls w_vector_down = []" by (simp add: ex_defs)
  have 1: "retrieve w_vector_down ''regression'' =
     (w_vector_down\<lparr>calls :=
        [EmbedQuery ''regression'', QdrantSearch collection_name [0.1, 0.2] 5]\<rparr>,
      Inl (Upstream ''ResponseHandlingException'' ''connection refused''))"
    using conjunct1 [OF retrieve_store_outcomes [OF e1]] s1 k1 by simp
  have e2: "embed_query w_vector_empty ''regression'' = Inr [0.1, 0.2]"
    by (simp add: ex_defs)
  have s2: "qdrant w_vector_empty collection_name [0.1, 0.2] = Inr []"
    by (simp add: ex_defs)
  have n2: "neo4j w_vector_empty = Inr ex_chunks" by (simp add: ex_defs)
  have g2: "neo4j_run w_vector_empty ''regression'' =
              Inr [''Ridge Regression adds a penalty.'', ''Linear regression fits a line.'']"
    by (simp add: neo4j_run_Inr [OF n2] ex_filter_regression)
  have 2: "snd (retrieve w_vector_empty ''regression'') =
       Inr ([], [''Ridge Regression adds a penalty.'', ''Linear regression fits a line.''])"
    using conjunct1 [OF conjunct2 [OF retrieve_store_outcomes [OF e2]]] s2 g2 by simp
  have e3: "embed_query w_graph_down ''regression'' = Inr [0.1, 0.2]"
    by (simp add: ex_defs)
  have s3: "qdrant w_graph_down collection_name [0.1, 0.2] = Inr ex_points"
    by (simp add: ex_defs)
  have n3: "neo4j w_graph_down = Inl (Upstream ''ServiceUnavailable'' ''connection refused'')"
    by (simp add: ex_defs)
  have 3: "snd (retrieve w_graph_down ''regression'') =
       Inl (Upstream ''ServiceUnavailable'' ''connection refused'')"
    using conjunct2 [OF conjunct2 [OF retrieve_store_outcomes [OF e3]]] s3 ex_payload_texts n3
    by blast
  have 4: "snd (retrieve w_ok ''xyzzy'') =
       Inr (newline_separated
              [''Linear regression fits a line.'', ''Linear regression fits a line.'',
               ''Ridge Regression adds a penalty.'', ''Residuals measure error.'',
               ''Clustering groups points.''], [])"
    using conjunct2 [OF conjunct2 [OF retrieve_store_outcomes [OF ex_embed]]]
      ex_qdrant ex_payload_texts ex_neo4j ex_no_xyzzy
    by blast
  from 1 2 3 4 show ?thesis by simp
qed

subsection \<open>C2: both stores reachable\<close>

text \<open>
  C2 says that \<open>retrieve\<close> returns two strings. With the embedding and both stores
  answering and every result carrying a payload text, \<open>retrieve\<close> does not raise, also
  when nothing matches; but its second component is the list \<open>cypher_texts\<close> of the
  matching chunk texts, not a string: the vector texts are joined, the graph texts are
  not.
\<close>

theorem retrieve_stores_reachable:
  assumes "embed_query w q = Inr v"
    and "qdrant w collection_name v = Inr ranked"
    and "map payload_text (take 5 ranked) = map (\<lambda>t. Some (PyStr t)) ts"
    and "neo4j w = Inr chunks"
  shows "snd (retrieve w q) =
           Inr (newline_separated ts,
                map chunk_text
                  (take 5 (filter (\<lambda>c. cypher_contains (toLower (chunk_text c)) (toLower q))
                             chunks)))"
  by (simp add: retrieve_ok [OF assms(1-3)] neo4j_run_Inr [OF assms(4)])

theorem retrieve_stores_reachable_witness:
  "snd (retrieve w_ok ''regression'') =
     Inr (''Linear regression fits a line.'' @ nl @ ''Linear regression fits a line.'' @ nl @
          ''Ridge Regression adds a penalty.'' @ nl @ ''Residuals measure error.'' @ nl @
          ''Clustering groups points.'',
          [''Ridge Regression adds a penalty.'', ''Linear regression fits a line.''])
   \<and> snd (retrieve w_ok ''xyzzy'') =
     Inr (''Linear regression fits a line.'' @ nl @ ''Linear regression fits a line.'' @ nl @
          ''Ridge Regression adds a penalty.'' @ nl @ ''Residuals measure error.'' @ nl @
          ''Clustering groups points.'', [])"
  using retrieve_stores_reachable [OF ex_embed ex_qdrant ex_payload_texts ex_neo4j, of "''regression''"]
    retrieve_stores_reachable [OF ex_embed ex_qdrant ex_payload_texts ex_neo4j, of "''xyzzy''"]
    ex_filter_regression ex_filter_xyzzy
  by simp

subsection \<open>C3: the wrapper of scripts.py\<close>

text \<open>
  C3 says that the wrapper \<open>retrieve\<close> of scripts.py calls the orchestrator's
  \<open>retrieve\<close> and then the answer generation once each and returns the answer. The
  wrapper hides the imported name behind its own, so it only calls itself: whatever the
  recursion limit, the world and the query, it ends in \<open>RecursionError\<close>, and the log
  of calls is as it was, so neither the orchestrator nor the generation has run.
\<close>

theorem scripts_retrieve_recursion_error:
  "scripts_retrieve limit w query = (w, Inl RecursionError)"
  by (induction limit) simp_all

theorem scripts_retrieve_recursion_error_witness:
  "scripts_retrieve 1000 w_ok ''regression'' = (w_ok, Inl RecursionError)
   \<and> calls (fst (scripts_retrieve 1000 w_ok ''regression'')) = []"
  using scripts_retrieve_recursion_error [of 1000 w_ok "''regression''"]
  by (simp add: w_ok_def)

subsection \<open>C4: the embedding call raises\<close>

text \<open>
  C4 as stated, at a world whose embedding model raises \<open>RuntimeError\<close>: \<open>retrieve\<close>
  raises that exception, whose class is not \<open>EmbeddingFailure\<close>.
\<close>

theorem retrieve_embedding_failure_counterexample:
  "snd (retrieve w_embed_down ''regression'')
     = Inl (Upstream ''RuntimeError'' ''embedding model unavailable'')
   \<and> exc_class (Upstream ''RuntimeError'' ''embedding model unavailable'') \<noteq> ''EmbeddingFailure''"
  by (simp add: retrieve_def ex_defs)

text \<open>
  C4 as amended: when the embedding call raises, \<open>retrieve\<close> raises that same exception
  and the only call it has made is the embedding call: neither the vector store nor the
  graph store is queried, and nothing is generated.
\<close>

theorem retrieve_embedding_failure:
  "embed_query w q = Inl e \<Longrightarrow> retrieve w q = (w\<lparr>calls := calls w @ [EmbedQuery q]\<rparr>, Inl e)"
  by (simp add: retrieve_def log_call_def)

theorem retrieve_embedding_failure_witness:
  "embed_query w_embed_down ''regression''
     = Inl (Upstream ''RuntimeError'' ''embedding model unavailable'')
   \<and> retrieve w_embed_down ''regression''
     = (w_embed_down\<lparr>calls := [EmbedQuery ''regression'']\<rparr>,
        Inl (Upstream ''RuntimeError'' ''embedding model unavailable''))"
proof -
  have h: "embed_query w_embed_down ''regression''
             = Inl (Upstream ''RuntimeError'' ''embedding model unavailable'')"
    by (simp add: ex_defs)
  have c: "calls w_embed_down = []" by (simp add: ex_defs)
  show ?thesis using h c retrieve_embedding_failure [OF h] by simp
qed

subsection \<open>C5: the vector context\<close>

text \<open>
  C5: when the embedding and the vector search succeed and \<open>ts\<close> are the payload texts
  of the five nearest points, in the order of the search, then there are at most five of
  them and the vector context \<open>retrieve\<close> returns is \<open>ts\<close> joined by newlines: in that
  order, duplicates kept, nothing of the graph result in it. (When the graph query raises,
  \<open>retrieve\<close> raises and returns no context.)
\<close>

theorem retrieve_vector_context:
  assumes "embed_query w q = Inr v"
    and "qdrant w collection_name v = Inr ranked"
    and "map payload_text (take 5 ranked) = map (\<lambda>t. Some (PyStr t)) ts"
  shows "snd (retrieve w q) =
           (case neo4j_run w q of Inl e \<Rightarrow> Inl e | Inr g \<Rightarrow> Inr (newline_separated ts, g))
         \<and> length ts \<le> 5"
proof -
  have "snd (retrieve w q) =
          (case neo4j_run w q of Inl e \<Rightarrow> Inl e | Inr g \<Rightarrow> Inr (newline_separated ts, g))"
    by (simp add: retrieve_ok [OF assms] split: sum.splits)
  moreover have "length ts \<le> 5" by (rule payload_texts_length [OF assms(3)])
  ultimately show ?thesis by simp
qed

theorem retrieve_vector_context_witness:
  "snd (retrieve w_ok ''regression'') =
     Inr (''Linear regression fits a line.'' @ nl @ ''Linear regression fits a line.'' @ nl @
          ''Ridge Regression adds a penalty.'' @ nl @ ''Residuals measure error.'' @ nl @
          ''Clustering groups points.'',
          [''Ridge Regression adds a penalty.'', ''Linear regression fits a line.''])
   \<and> length [''Linear regression fits a line.'', ''Linear regression fits a line.'',
        ''Ridge Regression adds a penalty.'', ''Residuals measure error.'',
        ''Clustering groups points.''] \<le> 5"
  using retrieve_vector_context [OF ex_embed ex_qdrant ex_payload_texts, of "''regression''"]
    ex_neo4j_run_regression
  by simp

subsection \<open>C6: the graph context\<close>

text \<open>
  C6: the graph context \<open>retrieve\<close> returns has at most five texts, as many as there are
  matching chunks when those are fewer; each is the text of a stored chunk and contains
  the query once both are lowered; and any world with the same graph store gives the same
  graph context for the query, whatever its embedding model and vector store.
\<close>

theorem retrieve_graph_context:
  assumes "snd (retrieve w q) = Inr (vc, g)" and "neo4j w = Inr chunks"
  shows "length g \<le> 5
       \<and> length g = min 5 (length (filter (\<lambda>c. \<exists>pre suf. toLower (chunk_text c) = pre @ toLower q @ suf) chunks))
       \<and> (\<forall>t \<in> set g. (\<exists>c \<in> set chunks. chunk_text c = t)
                        \<and> (\<exists>pre suf. toLower t = pre @ toLower q @ suf))
       \<and> (\<forall>w' vc' g'. neo4j w' = neo4j w \<and> snd (retrieve w' q) = Inr (vc', g') \<longrightarrow> g' = g)"
proof -
  let ?m = "\<lambda>c. cypher_contains (toLower (chunk_text c)) (toLower q)"
  have run: "neo4j_run w q = Inr g" by (rule retrieve_Inr_graph [OF assms(1)])
  with neo4j_run_Inr [OF assms(2), of q]
  have g: "g = map chunk_text (take 5 (filter ?m chunks))" by simp
  have 1: "length g \<le> 5" by (simp add: g)
  have 2: "length g = min 5 (length (filter (\<lambda>c. \<exists>pre suf. toLower (chunk_text c) = pre @ toLower q @ suf) chunks))"
    by (simp add: g cypher_contains_iff min.commute)
  have 3: "\<forall>t \<in> set g. (\<exists>c \<in> set chunks. chunk_text c = t)
                        \<and> (\<exists>pre suf. toLower t = pre @ toLower q @ suf)"
  proof
    fix t assume "t \<in> set g"
    then obtain c where c: "c \<in> set (take 5 (filter ?m chunks))" "chunk_text c = t"
      by (auto simp: g)
    from c(1) have "c \<in> set (filter ?m chunks)" by (rule in_set_takeD)
    then have "c \<in> set chunks" "?m c" by auto
    with c(2) show "(\<exists>c \<in> set chunks. chunk_text c = t)
                        \<and> (\<exists>pre suf. toLower t = pre @ toLower q @ suf)"
      by (auto simp: cypher_contains_iff)
  qed
  have 4: "\<forall>w' vc' g'. neo4j w' = neo4j w \<and> snd (retrieve w' q) = Inr (vc', g') \<longrightarrow> g' = g"
  proof (intro allI impI)
    fix w' vc' g'
    assume h: "neo4j w' = neo4j w \<and> snd (retrieve w' q) = Inr (vc', g')"
    then have "neo4j_run w' q = Inr g'" by (auto dest: retrieve_Inr_graph)
    with h run neo4j_run_cong [of w' w q] show "g' = g" by simp
  qed
  from 1 2 3 4 show ?thesis by blast
qed

theorem retrieve_graph_context_witness:
  "snd (retrieve w_ok ''regression'') =
     Inr (''Linear regression fits a line.'' @ nl @ ''Linear regression fits a line.'' @ nl @
          ''Ridge Regression adds a penalty.'' @ nl @ ''Residuals measure error.'' @ nl @
          ''Clustering groups points.'',
          [''Ridge Regression adds a penalty.'', ''Linear regression fits a line.''])
   \<and> neo4j w_ok = Inr ex_chunks
   \<and> length [''Ridge Regression adds a penalty.'', ''Linear regression fits a line.''] \<le> 5
   \<and> (\<exists>pre suf. toLower ''Ridge Regression adds a penalty.'' = pre @ toLower ''regression'' @ suf)
   \<and> (\<exists>pre suf. toLower ''Linear regression fits a line.'' = pre @ toLower ''regression'' @ suf)"
proof -
  let ?g = "[''Ridge Regression adds a penalty.'', ''Linear regression fits a line.'']"
  note T = retrieve_graph_context [OF ex_retrieve_regression ex_neo4j]
  from T have len: "length ?g \<le> 5" by (rule conjunct1)
  from T have b: "\<forall>t \<in> set ?g. (\<exists>c \<in> set ex_chunks. chunk_text c = t)
                        \<and> (\<exists>pre suf. toLower t = pre @ toLower ''regression'' @ suf)"
    by (rule conjunct1 [OF conjunct2 [OF conjunct2]])
  have m1: "''Ridge Regression adds a penalty.'' \<in> set ?g" by simp
  have m2: "''Linear regression fits a line.'' \<in> set ?g" by simp
  have c1: "\<exists>pre suf. toLower ''Ridge Regression adds a penalty.'' = pre @ toLower ''regression'' @ suf"
    by (rule conjunct2 [OF bspec [OF b m1]])
  have c2: "\<exists>pre suf. toLower ''Linear regression fits a line.'' = pre @ toLower ''regression'' @ suf"
    by (rule conjunct2 [OF bspec [OF b m2]])
  show ?thesis
    by (intro conjI) (rule ex_retrieve_regression ex_neo4j len c1 c2)+
qed

subsection \<open>C7: the chat-completion backend fails\<close>

text \<open>
  C7 as stated, at a world whose backend answers with a quota error of class
  \<open>SDKError\<close>: \<open>generate_answer_with_mistral\<close> raises that exception, whose class is
  not \<open>GenerationFailure\<close>.
\<close>

theorem generate_failure_counterexample:
  "snd (generate_answer_with_mistral w_quota ''What is regression?'' ''v'' ''g'' None None None)
     = Inl (Upstream ''SDKError'' ''429 quota exceeded'')
   \<and> exc_class (Upstream ''SDKError'' ''429 quota exceeded'') \<noteq> ''GenerationFailure''"
  by (simp add: generate_answer_with_mistral_def ex_defs)

text \<open>
  C7 as amended: when the backend call raises, \<open>generate_answer_with_mistral\<close> raises
  that same exception, returns no answer, and has called the backend exactly once.
\<close>

theorem generate_failure:
  assumes "chat_complete w (case model of None \<Rightarrow> ''mistral-small-latest'' | Some m \<Rightarrow> m)
             [\<lparr>role = ''system'', content = system_prompt\<rparr>,
              \<lparr>role = ''user'', content = user_prompt q mc nc\<rparr>]
             (case temperature of None \<Rightarrow> 0.3 | Some t \<Rightarrow> t)
             (case max_tokens of None \<Rightarrow> 300 | Some n \<Rightarrow> n) = Inl e"
  shows "generate_answer_with_mistral w q mc nc model temperature max_tokens =
           (w\<lparr>calls := calls w @
                [ChatComplete (case model of None \<Rightarrow> ''mistral-small-latest'' | Some m \<Rightarrow> m)
                   [\<lparr>role = ''system'', content = system_prompt\<rparr>,
                    \<lparr>role = ''user'', content = user_prompt q mc nc\<rparr>]
                   (case temperature of None \<Rightarrow> 0.3 | Some t \<Rightarrow> t)
                   (case max_tokens of None \<Rightarrow> 300 | Some n \<Rightarrow> n)]\<rparr>,
            Inl e)"
  using assms by (simp add: generate_answer_with_mistral_def log_call_def Let_def)

theorem generate_failure_witness:
  "generate_answer_with_mistral w_quota ''What is regression?'' ''v'' ''g'' None None None =
     (w_quota\<lparr>calls :=
        [ChatComplete ''mistral-small-latest''
           [\<lparr>role = ''system'', content = system_prompt\<rparr>,
            \<lparr>role = ''user'', content = user_prompt ''What is regression?'' ''v'' ''g''\<rparr>]
           0.3 300]\<rparr>,
      Inl (Upstream ''SDKError'' ''429 quota exceeded''))"
proof -
  have c: "calls w_quota = []" by (simp add: ex_defs)
  have h: "chat_complete w_quota (case None of None \<Rightarrow> ''mistral-small-latest'' | Some m \<Rightarrow> m)
             [\<lparr>role = ''system'', content = system_prompt\<rparr>,
              \<lparr>role = ''user'', content = user_prompt ''What is regression?'' ''v'' ''g''\<rparr>]
             (case None of None \<Rightarrow> 0.3 | Some t \<Rightarrow> t)
             (case None of None \<Rightarrow> 300 | Some n \<Rightarrow> n)
           = Inl (Upstream ''SDKError'' ''429 quota exceeded'')"
    by (simp add: ex_defs)
  show ?thesis using generate_failure [OF h] c by simp
qed

subsection \<open>C8: the answer generator\<close>

text \<open>
  C8: called without \<open>model\<close>, \<open>temperature\<close> and \<open>max_tokens\<close>,
  \<open>generate_answer_with_mistral\<close> calls the backend once with temperature 0.3, at most
  300 tokens and two messages, the fixed system instruction and one user turn. The user
  turn holds the vector context under its label, then the graph context under its label,
  then the question. When the first choice of the response is the text \<open>s\<close>, the answer
  is \<open>s\<close> without its leading and trailing whitespace.
\<close>

theorem generate_answer_defaults:
  assumes "chat_complete w ''mistral-small-latest''
             [\<lparr>role = ''system'', content = system_prompt\<rparr>,
              \<lparr>role = ''user'', content = user_prompt q mc nc\<rparr>] 0.3 300 = Inr resp"
    and "choices resp = PyStr s # rest"
  shows "generate_answer_with_mistral w q mc nc None None None =
           (w\<lparr>calls := calls w @
                [ChatComplete ''mistral-small-latest''
                   [\<lparr>role = ''system'', content = system_prompt\<rparr>,
                    \<lparr>role = ''user'', content = user_prompt q mc nc\<rparr>] 0.3 300]\<rparr>,
            Inr (py_strip s))
         \<and> (\<exists>pre mid1 mid2.
               user_prompt q mc nc =
                 pre @ ''Vector DB context:'' @ nl @ mc @ mid1 @ ''Neo4j context:'' @ nl @ nc @ mid2 @
                 ''Question:'' @ nl @ q @ nl @ nl @ ''Provide a concise, helpful answer.'')
         \<and> (\<exists>l r. s = l @ py_strip s @ r
                \<and> (\<forall>c \<in> set l. py_isspace c) \<and> (\<forall>c \<in> set r. py_isspace c))
         \<and> (py_strip s = [] \<or> (\<not> py_isspace (hd (py_strip s)) \<and> \<not> py_isspace (last (py_strip s))))"
proof -
  have "generate_answer_with_mistral w q mc nc None None None =
           (w\<lparr>calls := calls w @
                [ChatComplete ''mistral-small-latest''
                   [\<lparr>role = ''system'', content = system_prompt\<rparr>,
                    \<lparr>role = ''user'', content = user_prompt q mc nc\<rparr>] 0.3 300]\<rparr>,
            Inr (py_strip s))"
    using assms by (simp add: generate_answer_with_mistral_def log_call_def Let_def)
  moreover note user_prompt_blocks [of q mc nc] py_strip_decomp [of s]
  moreover have "py_strip s = [] \<or> (\<not> py_isspace (hd (py_strip s)) \<and> \<not> py_isspace (last (py_strip s)))"
    using py_strip_ends [of s] by blast
  ultimately show ?thesis by blast
qed

theorem generate_answer_defaults_witness:
  "generate_answer_with_mistral w_ok ''What is regression?'' ''v'' ''g'' None None None =
     (w_ok\<lparr>calls :=
        [ChatComplete ''mistral-small-latest''
           [\<lparr>role = ''system'',
             content = ''You are a helpful assistant that answers questions regarding a data science textbook.''\<rparr>,
            \<lparr>role = ''user'', content = user_prompt ''What is regression?'' ''v'' ''g''\<rparr>]
           0.3 300]\<rparr>,
      Inr ''Regression fits a model.'')"
proof -
  have h: "chat_complete w_ok ''mistral-small-latest''
             [\<lparr>role = ''system'', content = system_prompt\<rparr>,
              \<lparr>role = ''user'', content = user_prompt ''What is regression?'' ''v'' ''g''\<rparr>] 0.3 300
           = Inr \<lparr>choices = [PyStr ''  Regression fits a model. '']\<rparr>"
    by (simp add: w_ok_def)
  have c: "choices \<lparr>choices = [PyStr ''  Regression fits a model. '']\<rparr>
             = PyStr ''  Regression fits a model. '' # []" by simp
  have s: "py_strip ''  Regression fits a model. '' = ''Regression fits a model.''"
    by (simp add: py_strip_def py_isspace_def)
  have k: "calls w_ok = []" by (simp add: w_ok_def)
  from generate_answer_defaults [OF h c] s k show ?thesis
    by (simp add: system_prompt_def)
qed

subsection \<open>C9: calling retrieve twice\<close>

text \<open>
  C9: \<open>retrieve\<close> leaves the embedding model, the vector store and the graph store as
  they were, and a second call with the same query returns what the first returned.
\<close>

theorem retrieve_idempotent:
  "snd (retrieve (fst (retrieve w q)) q) = snd (retrieve w q)
   \<and> embed_query (fst (retrieve w q)) = embed_query w
   \<and> qdrant (fst (retrieve w q)) = qdrant w
   \<and> neo4j (fst (retrieve w q)) = neo4j w"
proof -
  obtain cs where w': "fst (retrieve w q) = w\<lparr>calls := cs\<rparr>"
    using retrieve_world [of w q] by blast
  then show ?thesis by (simp add: retrieve_snd_calls)
qed

theorem retrieve_idempotent_witness:
  "snd (retrieve (fst (retrieve w_ok ''regression'')) ''regression'') =
     Inr (''Linear regression fits a line.'' @ nl @ ''Linear regression fits a line.'' @ nl @
          ''Ridge Regression adds a penalty.'' @ nl @ ''Residuals measure error.'' @ nl @
          ''Clustering groups points.'',
          [''Ridge Regression adds a penalty.'', ''Linear regression fits a line.''])"
  using retrieve_idempotent [of w_ok "''regression''"] ex_retrieve_regression
  by simp

subsection \<open>C10: the empty query\<close>

text \<open>
  C10: \<open>retrieve\<close> does not check its query. For the empty string it embeds, searches
  and queries the graph as for any other; every chunk text contains the empty string, so
  the graph context is the texts of the first five chunks of the store, or of all of them
  when they are fewer.
\<close>

theorem retrieve_empty_query:
  assumes "embed_query w [] = Inr v"
    and "qdrant w collection_name v = Inr ranked"
    and "map payload_text (take 5 ranked) = map (\<lambda>t. Some (PyStr t)) ts"
    and "neo4j w = Inr chunks"
  shows "retrieve w [] =
           (w\<lparr>calls := calls w @ [EmbedQuery [], QdrantSearch collection_name v 5, Neo4jRun []]\<rparr>,
            Inr (newline_separated ts, map chunk_text (take 5 chunks)))
         \<and> (\<forall>c \<in> set chunks. \<exists>pre suf. toLower (chunk_text c) = pre @ toLower [] @ suf)
         \<and> length (map chunk_text (take 5 chunks)) = min 5 (length chunks)"
proof -
  have "neo4j_run w [] = Inr (map chunk_text (take 5 chunks))"
    by (simp add: neo4j_run_Inr [OF assms(4)] toLower_def cypher_contains_empty)
  then have "retrieve w [] =
           (w\<lparr>calls := calls w @ [EmbedQuery [], QdrantSearch collection_name v 5, Neo4jRun []]\<rparr>,
            Inr (newline_separated ts, map chunk_text (take 5 chunks)))"
    by (simp add: retrieve_ok [OF assms(1-3)])
  moreover have "\<forall>c \<in> set chunks. \<exists>pre suf. toLower (chunk_text c) = pre @ toLower [] @ suf"
    by (auto simp: toLower_def)
  ultimately show ?thesis by (simp add: min.commute)
qed

theorem retrieve_empty_query_witness:
  "retrieve w_ok [] =
     (w_ok\<lparr>calls := [EmbedQuery [], QdrantSearch collection_name [0.1, 0.2] 5, Neo4jRun []]\<rparr>,
      Inr (''Linear regression fits a line.'' @ nl @ ''Linear regression fits a line.'' @ nl @
           ''Ridge Regression adds a penalty.'' @ nl @ ''Residuals measure error.'' @ nl @
           ''Clustering groups points.'',
           [''Clustering groups points.'', ''Ridge Regression adds a penalty.'',
            ''Trees split on features.'', ''Linear regression fits a line.'',
            ''Residuals measure error.'']))"
  using retrieve_empty_query [OF ex_embed ex_qdrant ex_payload_texts ex_neo4j] ex_calls
  by (simp add: ex_chunks_def mk_chunk_def)

end
